theory Spec2Isabelle
  imports Main "HOL-Library.Word"
begin

section \<open>The mSBC decoder of the hands-free profile\<close>

text \<open>
  A shallow embedding of \<^verbatim>\<open>system/stack/btm/hfp_msbc_decoder.cc\<close>: the process-wide
  decoder object \<^verbatim>\<open>hfp_msbc_decoder\<close> and the three functions that work on it,
  \<^verbatim>\<open>hfp_msbc_decoder_init\<close>, \<^verbatim>\<open>hfp_msbc_decoder_cleanup\<close> and
  \<^verbatim>\<open>hfp_msbc_decoder_decode_packet\<close>.

  The SBC engine (\<^verbatim>\<open>embdrv/sbc/decoder\<close>) is reached through its public header only.
  Everything that header declares and the file uses (the macro \<^verbatim>\<open>OI_SUCCESS\<close>, the
  sizing macro \<^verbatim>\<open>CODEC_DATA_WORDS\<close>, the constant \<^verbatim>\<open>SBC_CODEC_FAST_FILTER_BUFFERS\<close>,
  the size of the context structure and the three entry points) is a parameter of the
  model, collected in the record \<open>oi_codec_sbc\<close>. The theorems hold for every value of
  that record.
\<close>

subsection \<open>Data\<close>

type_synonym OI_STATUS = "32 word"
type_synonym OI_BYTE = "8 word"

text \<open>
  Addresses are symbolic. The three members of the static object have one address each;
  every other address belongs to the caller.
\<close>

datatype pointer =
    NULL
  | Addr_decoder_context
  | Addr_context_data
  | Addr_decode_buf
  | Addr_caller nat

text \<open>
  \<^verbatim>\<open>typedef struct { OI_CODEC_SBC_DECODER_CONTEXT decoder_context;
  uint32_t context_data[CODEC_DATA_WORDS(2, SBC_CODEC_FAST_FILTER_BUFFERS)];
  int16_t decode_buf[120]; } tHFP_MSBC_DECODER;\<close>
  The context structure is opaque to the file, so it is kept as its bytes.
\<close>

record tHFP_MSBC_DECODER =
  decoder_context :: "OI_BYTE list"
  context_data :: "32 word list"
  decode_buf :: "16 word list"

text \<open>
  The engine's header. An entry point receives the storage it can reach through its
  pointer arguments (the decoder object: the context keeps the address of the scratch
  words it was reset with) and the scalar arguments; it returns its status, the storage
  as it leaves it, and the values of its in-out arguments.
  \<^item> \<^verbatim>\<open>OI_CODEC_SBC_DecoderReset(context, decoderData, decoderDataBytes, maxChannels,
    pcmStride, enhanced)\<close>
  \<^item> \<^verbatim>\<open>OI_CODEC_SBC_DecoderConfigureMSbc(context)\<close>
  \<^item> \<^verbatim>\<open>OI_CODEC_SBC_DecodeFrame(context, &frameData, &frameBytes, pcmData, &pcmBytes)\<close>:
    the result carries \<open>frameBytes\<close> and \<open>pcmBytes\<close> after the call. The advanced
    \<open>frameData\<close> is a local of the caller that is never read again, so it is left out.
\<close>

record oi_codec_sbc =
  OI_SUCCESS :: "OI_STATUS \<Rightarrow> bool"
  CODEC_DATA_WORDS :: "nat \<Rightarrow> nat \<Rightarrow> nat"
  SBC_CODEC_FAST_FILTER_BUFFERS :: nat
  sizeof_DECODER_CONTEXT :: nat
  OI_CODEC_SBC_DecoderReset ::
    "tHFP_MSBC_DECODER \<Rightarrow> pointer \<Rightarrow> pointer \<Rightarrow> 32 word \<Rightarrow> 8 word \<Rightarrow> 8 word \<Rightarrow> bool
      \<Rightarrow> OI_STATUS \<times> tHFP_MSBC_DECODER"
  OI_CODEC_SBC_DecoderConfigureMSbc ::
    "tHFP_MSBC_DECODER \<Rightarrow> pointer \<Rightarrow> OI_STATUS \<times> tHFP_MSBC_DECODER"
  OI_CODEC_SBC_DecodeFrame ::
    "tHFP_MSBC_DECODER \<Rightarrow> pointer \<Rightarrow> OI_BYTE list \<Rightarrow> 32 word \<Rightarrow> pointer \<Rightarrow> 32 word
      \<Rightarrow> OI_STATUS \<times> tHFP_MSBC_DECODER \<times> 32 word \<times> 32 word"

text \<open>\<^verbatim>\<open>#define HFP_MSBC_PKT_LEN 60\<close>\<close>

definition HFP_MSBC_PKT_LEN :: "32 word" where
  "HFP_MSBC_PKT_LEN = 60"

text \<open>The array bounds and \<^verbatim>\<open>sizeof\<close> of the members, in bytes.\<close>

definition context_data_words :: "oi_codec_sbc \<Rightarrow> nat" where
  "context_data_words H = CODEC_DATA_WORDS H 2 (SBC_CODEC_FAST_FILTER_BUFFERS H)"

definition sizeof_context_data :: "oi_codec_sbc \<Rightarrow> nat" where
  "sizeof_context_data H = 4 * context_data_words H"

definition decode_buf_samples :: nat where
  "decode_buf_samples = 120"

definition sizeof_decode_buf :: nat where
  "sizeof_decode_buf = 2 * decode_buf_samples"

text \<open>
  Observable effects besides the decoder object: every call into the engine, with the
  arguments it was given, and every \<^verbatim>\<open>LOG_ERROR\<close> line, with the values it prints.
\<close>

datatype engine_call =
    Call_DecoderReset pointer pointer "32 word" "8 word" "8 word" bool
  | Call_DecoderConfigureMSbc pointer
  | Call_DecodeFrame pointer "OI_BYTE list" "32 word" pointer "32 word"

datatype log_entry =
    Log_DecoderReset_failed OI_STATUS
  | Log_DecoderConfigureMSbc_failed OI_STATUS
  | Log_Decoding_failure OI_STATUS "32 word" "32 word"

record world =
  hfp_msbc_decoder :: tHFP_MSBC_DECODER
  engine_calls :: "engine_call list"
  error_log :: "log_entry list"

text \<open>An object whose bytes are all zero: what \<^verbatim>\<open>memset(&hfp_msbc_decoder, 0, sizeof ...)\<close>
  leaves, and what static storage holds when the program starts.\<close>

definition zeroed_decoder :: "oi_codec_sbc \<Rightarrow> tHFP_MSBC_DECODER" where
  "zeroed_decoder H =
     \<lparr>decoder_context = replicate (sizeof_DECODER_CONTEXT H) 0,
      context_data = replicate (context_data_words H) 0,
      decode_buf = replicate decode_buf_samples 0\<rparr>"

definition initial_world :: "oi_codec_sbc \<Rightarrow> world" where
  "initial_world H =
     \<lparr>hfp_msbc_decoder = zeroed_decoder H, engine_calls = [], error_log = []\<rparr>"

text \<open>What an address of the decoder's sample buffer designates in a given storage.\<close>

fun int16_array_at :: "tHFP_MSBC_DECODER \<Rightarrow> pointer \<Rightarrow> 16 word list option" where
  "int16_array_at m Addr_decode_buf = Some (decode_buf m)"
| "int16_array_at m p = None"

text \<open>The calls of the single-frame decode primitive among a list of engine calls.\<close>

fun is_DecodeFrame :: "engine_call \<Rightarrow> bool" where
  "is_DecodeFrame (Call_DecodeFrame context frameData frameBytes pcmData pcmBytes) = True"
| "is_DecodeFrame c = False"

subsection \<open>Calls into the engine\<close>

definition LOG_ERROR :: "log_entry \<Rightarrow> world \<Rightarrow> world" where
  "LOG_ERROR e w = w\<lparr>error_log := error_log w @ [e]\<rparr>"

definition call_DecoderReset ::
  "oi_codec_sbc \<Rightarrow> pointer \<Rightarrow> pointer \<Rightarrow> 32 word \<Rightarrow> 8 word \<Rightarrow> 8 word \<Rightarrow> bool \<Rightarrow> world
    \<Rightarrow> OI_STATUS \<times> world" where
  "call_DecoderReset H context decoderData decoderDataBytes maxChannels pcmStride enhanced w =
     (case OI_CODEC_SBC_DecoderReset H (hfp_msbc_decoder w) context decoderData
             decoderDataBytes maxChannels pcmStride enhanced of
        (status, m) \<Rightarrow>
          (status,
           w\<lparr>hfp_msbc_decoder := m,
             engine_calls := engine_calls w @
               [Call_DecoderReset context decoderData decoderDataBytes maxChannels
                  pcmStride enhanced]\<rparr>))"

definition call_DecoderConfigureMSbc ::
  "oi_codec_sbc \<Rightarrow> pointer \<Rightarrow> world \<Rightarrow> OI_STATUS \<times> world" where
  "call_DecoderConfigureMSbc H context w =
     (case OI_CODEC_SBC_DecoderConfigureMSbc H (hfp_msbc_decoder w) context of
        (status, m) \<Rightarrow>
          (status,
           w\<lparr>hfp_msbc_decoder := m,
             engine_calls := engine_calls w @ [Call_DecoderConfigureMSbc context]\<rparr>))"

definition call_DecodeFrame ::
  "oi_codec_sbc \<Rightarrow> pointer \<Rightarrow> OI_BYTE list \<Rightarrow> 32 word \<Rightarrow> pointer \<Rightarrow> 32 word \<Rightarrow> world
    \<Rightarrow> OI_STATUS \<times> 32 word \<times> 32 word \<times> world" where
  "call_DecodeFrame H context frameData frameBytes pcmData pcmBytes w =
     (case OI_CODEC_SBC_DecodeFrame H (hfp_msbc_decoder w) context frameData frameBytes
             pcmData pcmBytes of
        (status, m, frameBytes', pcmBytes') \<Rightarrow>
          (status, frameBytes', pcmBytes',
           w\<lparr>hfp_msbc_decoder := m,
             engine_calls := engine_calls w @
               [Call_DecodeFrame context frameData frameBytes pcmData pcmBytes]\<rparr>))"

subsection \<open>The three functions of the file\<close>

definition hfp_msbc_decoder_init :: "oi_codec_sbc \<Rightarrow> world \<Rightarrow> bool \<times> world" where
  "hfp_msbc_decoder_init H w =
     (case call_DecoderReset H Addr_decoder_context Addr_context_data
             (of_nat (sizeof_context_data H)) 1 1 False w of
        (status, w1) \<Rightarrow>
          if \<not> OI_SUCCESS H status
          then (False, LOG_ERROR (Log_DecoderReset_failed status) w1)
          else
            (case call_DecoderConfigureMSbc H Addr_decoder_context w1 of
               (status, w2) \<Rightarrow>
                 if \<not> OI_SUCCESS H status
                 then (False, LOG_ERROR (Log_DecoderConfigureMSbc_failed status) w2)
                 else (True, w2)))"

definition hfp_msbc_decoder_cleanup :: "oi_codec_sbc \<Rightarrow> world \<Rightarrow> world" where
  "hfp_msbc_decoder_cleanup H w = w\<lparr>hfp_msbc_decoder := zeroed_decoder H\<rparr>"

text \<open>
  \<open>i_buf\<close> is the caller's packet, \<open>o_buf\<close> the value the caller's pointer variable holds
  before the call (a variable outside the decoder object); the result is the returned
  flag, the value of that variable after the call, and the world.
\<close>

definition hfp_msbc_decoder_decode_packet ::
  "oi_codec_sbc \<Rightarrow> OI_BYTE list \<Rightarrow> pointer \<Rightarrow> world \<Rightarrow> bool \<times> pointer \<times> world" where
  "hfp_msbc_decoder_decode_packet H i_buf o_buf w =
     (let oi_data = i_buf;
          oi_size = HFP_MSBC_PKT_LEN;
          out_avail = of_nat sizeof_decode_buf;
          out_ptr = Addr_decode_buf
      in case call_DecodeFrame H Addr_decoder_context oi_data oi_size out_ptr out_avail w of
           (status, oi_size, out_avail, w1) \<Rightarrow>
             if \<not> OI_SUCCESS H status \<or> out_avail \<noteq> 240 \<or> oi_size \<noteq> 0
             then (False, o_buf, LOG_ERROR (Log_Decoding_failure status out_avail oi_size) w1)
             else (True, Addr_decode_buf, w1))"

subsection \<open>A small engine to run the functions on\<close>

text \<open>
  One value of the header record, so that the functions above can be evaluated on
  concrete packets. Its sizing macro is in the shape of the one in the engine's header:
  the bytes of 16 blocks of 8 subband values of 32 bits for each channel, plus the filter
  buffers of 16-bit values for two channels of 8 bands, rounded up to whole words.
  Its context is three bytes (channels, stride, mSBC flag); a reset
  checks its arguments against the scratch size, the mSBC configuration needs a reset
  context, and a frame is decoded only by a configured context: it consumes the bytes
  it is given, two samples for each.
\<close>

definition sample_CODEC_DATA_WORDS :: "nat \<Rightarrow> nat \<Rightarrow> nat" where
  "sample_CODEC_DATA_WORDS numChannels numBuffers =
     (4 * 16 * numChannels * 8 + 2 * 2 * 8 * numBuffers + 3) div 4"

definition sample_DecoderReset ::
  "tHFP_MSBC_DECODER \<Rightarrow> pointer \<Rightarrow> pointer \<Rightarrow> 32 word \<Rightarrow> 8 word \<Rightarrow> 8 word \<Rightarrow> bool
    \<Rightarrow> OI_STATUS \<times> tHFP_MSBC_DECODER" where
  "sample_DecoderReset m context decoderData decoderDataBytes maxChannels pcmStride enhanced =
     (if context = Addr_decoder_context \<and> decoderData = Addr_context_data
         \<and> 4 * sample_CODEC_DATA_WORDS (unat maxChannels) 16 \<le> unat decoderDataBytes
         \<and> 1 \<le> maxChannels \<and> maxChannels \<le> 2 \<and> 1 \<le> pcmStride \<and> pcmStride \<le> 2
      then (0, m\<lparr>decoder_context := [maxChannels, pcmStride, 0],
                 context_data := replicate (length (context_data m)) 0\<rparr>)
      else (101, m))"

definition sample_DecoderConfigureMSbc ::
  "tHFP_MSBC_DECODER \<Rightarrow> pointer \<Rightarrow> OI_STATUS \<times> tHFP_MSBC_DECODER" where
  "sample_DecoderConfigureMSbc m context =
     (case decoder_context m of
        [maxChannels, pcmStride, msbc] \<Rightarrow>
          if context = Addr_decoder_context \<and> 1 \<le> maxChannels
          then (0, m\<lparr>decoder_context := [maxChannels, pcmStride, 1]\<rparr>)
          else (101, m)
      | _ \<Rightarrow> (101, m))"

definition sample_DecodeFrame ::
  "tHFP_MSBC_DECODER \<Rightarrow> pointer \<Rightarrow> OI_BYTE list \<Rightarrow> 32 word \<Rightarrow> pointer \<Rightarrow> 32 word
    \<Rightarrow> OI_STATUS \<times> tHFP_MSBC_DECODER \<times> 32 word \<times> 32 word" where
  "sample_DecodeFrame m context frameData frameBytes pcmData pcmBytes =
     (if decoder_context m = [1, 1, 1] \<and> context = Addr_decoder_context
         \<and> pcmData = Addr_decode_buf
      then
        (let n = min (min (unat frameBytes) (length frameData)) (unat pcmBytes div 4);
             s = (if frameData = [] then 0 else ucast (hd frameData))
         in (0,
             m\<lparr>decode_buf := replicate (2 * n) s @ replicate (decode_buf_samples - 2 * n) 0\<rparr>,
             frameBytes - of_nat n,
             of_nat (4 * n)))
      else (101, m, frameBytes, pcmBytes))"

definition sample_codec :: oi_codec_sbc where
  "sample_codec =
     \<lparr>OI_SUCCESS = (\<lambda>status. status = 0),
      CODEC_DATA_WORDS = sample_CODEC_DATA_WORDS,
      SBC_CODEC_FAST_FILTER_BUFFERS = 27,
      sizeof_DECODER_CONTEXT = 3,
      OI_CODEC_SBC_DecoderReset = sample_DecoderReset,
      OI_CODEC_SBC_DecoderConfigureMSbc = sample_DecoderConfigureMSbc,
      OI_CODEC_SBC_DecodeFrame = sample_DecodeFrame\<rparr>"

text \<open>A world in which the sample engine has been initialised, and two packets.\<close>

definition ready_world :: world where
  "ready_world = snd (hfp_msbc_decoder_init sample_codec (initial_world sample_codec))"

definition full_packet :: "OI_BYTE list" where
  "full_packet = replicate 60 0xAD"

definition short_packet :: "OI_BYTE list" where
  "short_packet = replicate 59 0xAD"

text \<open>A world in which the sample engine has already decoded a packet.\<close>

definition used_world :: world where
  "used_world =
     snd (snd (hfp_msbc_decoder_decode_packet sample_codec (replicate 60 0x11) NULL ready_world))"

text \<open>A packet one byte longer than the engine is told.\<close>

definition long_packet :: "OI_BYTE list" where
  "long_packet = replicate 61 0xAD"

text \<open>
  A second engine, whose frame decode keeps a history: every application adds one to each
  scratch word and reports a whole frame. It tells one application from none and from two.
\<close>

definition counting_DecodeFrame ::
  "tHFP_MSBC_DECODER \<Rightarrow> pointer \<Rightarrow> OI_BYTE list \<Rightarrow> 32 word \<Rightarrow> pointer \<Rightarrow> 32 word
    \<Rightarrow> OI_STATUS \<times> tHFP_MSBC_DECODER \<times> 32 word \<times> 32 word" where
  "counting_DecodeFrame m context frameData frameBytes pcmData pcmBytes =
     (0, m\<lparr>context_data := map (\<lambda>x. x + 1) (context_data m)\<rparr>, 0, 240)"

definition counting_codec :: oi_codec_sbc where
  "counting_codec = sample_codec\<lparr>OI_CODEC_SBC_DecodeFrame := counting_DecodeFrame\<rparr>"

section \<open>Properties\<close>

subsection \<open>Evaluating the sample engine\<close>

lemma sample_init_ok:
  "hfp_msbc_decoder_init sample_codec (initial_world sample_codec) =
     (True,
      \<lparr>hfp_msbc_decoder =
         \<lparr>decoder_context = [1, 1, 1],
          context_data = replicate 472 0,
          decode_buf = replicate 120 0\<rparr>,
       engine_calls =
         [Call_DecoderReset Addr_decoder_context Addr_context_data 1888 1 1 False,
          Call_DecoderConfigureMSbc Addr_decoder_context],
       error_log = []\<rparr>)"
  by (simp add: hfp_msbc_decoder_init_def call_DecoderReset_def call_DecoderConfigureMSbc_def
      initial_world_def zeroed_decoder_def sample_codec_def sample_DecoderReset_def
      sample_DecoderConfigureMSbc_def sample_CODEC_DATA_WORDS_def sizeof_context_data_def
      context_data_words_def decode_buf_samples_def LOG_ERROR_def)

lemma ready_world_eq:
  "ready_world =
      \<lparr>hfp_msbc_decoder =
         \<lparr>decoder_context = [1, 1, 1],
          context_data = replicate 472 0,
          decode_buf = replicate 120 0\<rparr>,
       engine_calls =
         [Call_DecoderReset Addr_decoder_context Addr_context_data 1888 1 1 False,
          Call_DecoderConfigureMSbc Addr_decoder_context],
       error_log = []\<rparr>"
  by (simp add: ready_world_def sample_init_ok)

lemma sample_frame_full:
  "OI_CODEC_SBC_DecodeFrame sample_codec (hfp_msbc_decoder ready_world) Addr_decoder_context
     full_packet 60 Addr_decode_buf 240 =
   (0, (hfp_msbc_decoder ready_world)\<lparr>decode_buf := replicate 120 0xAD\<rparr>, 0, 240)"
  by (simp add: ready_world_eq sample_codec_def sample_DecodeFrame_def full_packet_def
      decode_buf_samples_def Let_def)

lemma sample_frame_short:
  "OI_CODEC_SBC_DecodeFrame sample_codec (hfp_msbc_decoder ready_world) Addr_decoder_context
     short_packet 60 Addr_decode_buf 240 =
   (0, (hfp_msbc_decoder ready_world)\<lparr>decode_buf := replicate 118 0xAD @ replicate 2 0\<rparr>, 1, 236)"
  by (simp add: ready_world_eq sample_codec_def sample_DecodeFrame_def short_packet_def
      decode_buf_samples_def Let_def)

lemma sample_frame_zeroed:
  "OI_CODEC_SBC_DecodeFrame sample_codec (zeroed_decoder sample_codec) Addr_decoder_context
     full_packet 60 Addr_decode_buf 240 =
   (101, zeroed_decoder sample_codec, 60, 240)"
  by (simp add: zeroed_decoder_def sample_codec_def sample_DecodeFrame_def numeral_3_eq_3)

subsection \<open>The success test of a decode\<close>

text \<open>
  Claim C1. A call of \<^verbatim>\<open>hfp_msbc_decoder_decode_packet\<close> returns true if and only if,
  after its one call of the engine's frame decode (given the packet, the length 60, the
  sample buffer and the capacity 240), all three hold: the engine's status is a success
  status, the engine reports 0 input bytes remaining, and the engine reports exactly 240
  output bytes. If one of the three fails the call returns false, also when the status
  alone is a success.
\<close>

theorem decode_packet_success_iff:
  "fst (hfp_msbc_decoder_decode_packet H i_buf o_buf w) =
     (case OI_CODEC_SBC_DecodeFrame H (hfp_msbc_decoder w) Addr_decoder_context i_buf 60
             Addr_decode_buf 240 of
        (status, m, remaining, produced) \<Rightarrow>
          OI_SUCCESS H status \<and> remaining = 0 \<and> produced = 240)"
  by (auto simp add: hfp_msbc_decoder_decode_packet_def call_DecodeFrame_def HFP_MSBC_PKT_LEN_def
      sizeof_decode_buf_def decode_buf_samples_def split: prod.splits)

theorem decode_packet_success_iff_witness:
  "fst (hfp_msbc_decoder_decode_packet sample_codec full_packet NULL ready_world)
   \<and> \<not> fst (hfp_msbc_decoder_decode_packet sample_codec short_packet NULL ready_world)
   \<and> \<not> fst (hfp_msbc_decoder_decode_packet sample_codec full_packet NULL
              (initial_world sample_codec))"
  using decode_packet_success_iff [of sample_codec full_packet NULL ready_world]
    decode_packet_success_iff [of sample_codec short_packet NULL ready_world]
    decode_packet_success_iff [of sample_codec full_packet NULL "initial_world sample_codec"]
  by (simp add: sample_frame_full sample_frame_short sample_frame_zeroed initial_world_def)
    (simp add: sample_codec_def)

lemma sample_decode_configured:
  assumes "decoder_context (hfp_msbc_decoder w) = [1, 1, 1]"
  shows "hfp_msbc_decoder_decode_packet sample_codec (replicate 60 b) p w =
     (True, Addr_decode_buf,
      w\<lparr>hfp_msbc_decoder := (hfp_msbc_decoder w)\<lparr>decode_buf := replicate 120 (ucast b)\<rparr>,
        engine_calls := engine_calls w @
          [Call_DecodeFrame Addr_decoder_context (replicate 60 b) 60 Addr_decode_buf 240]\<rparr>)"
  using assms
  by (simp add: hfp_msbc_decoder_decode_packet_def call_DecodeFrame_def HFP_MSBC_PKT_LEN_def
      sizeof_decode_buf_def decode_buf_samples_def sample_codec_def sample_DecodeFrame_def
      Let_def)

lemma sample_decode_short:
  "hfp_msbc_decoder_decode_packet sample_codec short_packet p ready_world =
     (False, p,
      ready_world\<lparr>hfp_msbc_decoder :=
          (hfp_msbc_decoder ready_world)\<lparr>decode_buf := replicate 118 0xAD @ replicate 2 0\<rparr>,
        engine_calls := engine_calls ready_world @
          [Call_DecodeFrame Addr_decoder_context short_packet 60 Addr_decode_buf 240],
        error_log := [Log_Decoding_failure 0 236 1]\<rparr>)"
  by (simp add: hfp_msbc_decoder_decode_packet_def call_DecodeFrame_def HFP_MSBC_PKT_LEN_def
      sizeof_decode_buf_def decode_buf_samples_def sample_frame_short LOG_ERROR_def Let_def)
    (simp add: sample_codec_def ready_world_eq)

lemma ready_world_configured:
  "decoder_context (hfp_msbc_decoder ready_world) = [1, 1, 1]"
  by (simp add: ready_world_eq)

lemma decode_packet_unfold:
  "hfp_msbc_decoder_decode_packet H i_buf o_buf w =
     (case OI_CODEC_SBC_DecodeFrame H (hfp_msbc_decoder w) Addr_decoder_context i_buf 60
             Addr_decode_buf 240 of
        (status, m, oi_size, out_avail) \<Rightarrow>
          if OI_SUCCESS H status \<and> out_avail = 240 \<and> oi_size = 0
          then (True, Addr_decode_buf,
                \<lparr>hfp_msbc_decoder = m,
                 engine_calls = engine_calls w @
                   [Call_DecodeFrame Addr_decoder_context i_buf 60 Addr_decode_buf 240],
                 error_log = error_log w\<rparr>)
          else (False, o_buf,
                \<lparr>hfp_msbc_decoder = m,
                 engine_calls = engine_calls w @
                   [Call_DecodeFrame Addr_decoder_context i_buf 60 Addr_decode_buf 240],
                 error_log = error_log w @ [Log_Decoding_failure status out_avail oi_size]\<rparr>))"
  by (cases "OI_CODEC_SBC_DecodeFrame H (hfp_msbc_decoder w) Addr_decoder_context i_buf 60
             Addr_decode_buf 240")
    (auto simp add: hfp_msbc_decoder_decode_packet_def call_DecodeFrame_def HFP_MSBC_PKT_LEN_def
      sizeof_decode_buf_def decode_buf_samples_def LOG_ERROR_def Let_def)

subsection \<open>What the engine is given\<close>

lemma sample_frame_long:
  "OI_CODEC_SBC_DecodeFrame sample_codec (hfp_msbc_decoder ready_world) Addr_decoder_context
     long_packet 60 Addr_decode_buf 240 =
   (0, (hfp_msbc_decoder ready_world)\<lparr>decode_buf := replicate 120 0xAD\<rparr>, 0, 240)"
  by (simp add: ready_world_eq sample_codec_def sample_DecodeFrame_def long_packet_def
      decode_buf_samples_def Let_def)

lemma counting_frame:
  "OI_CODEC_SBC_DecodeFrame counting_codec m context frameData frameBytes pcmData pcmBytes =
     (0, m\<lparr>context_data := map (\<lambda>x. x + 1) (context_data m)\<rparr>, 0, 240)"
  by (simp add: counting_codec_def counting_DecodeFrame_def)

text \<open>
  Claim C2. Every call of \<^verbatim>\<open>hfp_msbc_decoder_decode_packet\<close> is the engine's frame decode
  applied to the caller's packet with the fixed length 60 (\<^verbatim>\<open>HFP_MSBC_PKT_LEN\<close>) and to the
  sample buffer with its full capacity, 240 bytes, the size of the 120 samples of 16 bits,
  followed by the success test on what the engine reports. This is the whole of the call
  for a packet of any length: the function never looks at the length of the caller's
  buffer, and what a mismatch leads to is what the engine makes of it.
\<close>
theorem decode_packet_engine_arguments:
  "hfp_msbc_decoder_decode_packet H i_buf o_buf w =
     (case OI_CODEC_SBC_DecodeFrame H (hfp_msbc_decoder w) Addr_decoder_context i_buf
             HFP_MSBC_PKT_LEN Addr_decode_buf (of_nat sizeof_decode_buf) of
        (status, m, oi_size, out_avail) \<Rightarrow>
          if OI_SUCCESS H status \<and> out_avail = 240 \<and> oi_size = 0
          then (True, Addr_decode_buf,
                \<lparr>hfp_msbc_decoder = m,
                 engine_calls = engine_calls w @
                   [Call_DecodeFrame Addr_decoder_context i_buf 60 Addr_decode_buf 240],
                 error_log = error_log w\<rparr>)
          else (False, o_buf,
                \<lparr>hfp_msbc_decoder = m,
                 engine_calls = engine_calls w @
                   [Call_DecodeFrame Addr_decoder_context i_buf 60 Addr_decode_buf 240],
                 error_log = error_log w @ [Log_Decoding_failure status out_avail oi_size]\<rparr>))
   \<and> HFP_MSBC_PKT_LEN = 60
   \<and> (of_nat sizeof_decode_buf :: 32 word) = 240
   \<and> sizeof_decode_buf = 240
   \<and> sizeof_decode_buf = 2 * length (decode_buf (zeroed_decoder H))"
  by (simp add: decode_packet_unfold HFP_MSBC_PKT_LEN_def sizeof_decode_buf_def
      decode_buf_samples_def zeroed_decoder_def)

theorem decode_packet_engine_arguments_witness:
  "length long_packet = 61
   \<and> hfp_msbc_decoder_decode_packet sample_codec long_packet NULL ready_world =
       (True, Addr_decode_buf,
        \<lparr>hfp_msbc_decoder =
           \<lparr>decoder_context = [1, 1, 1],
            context_data = replicate 472 0,
            decode_buf = replicate 120 0xAD\<rparr>,
         engine_calls =
           [Call_DecoderReset Addr_decoder_context Addr_context_data 1888 1 1 False,
            Call_DecoderConfigureMSbc Addr_decoder_context,
            Call_DecodeFrame Addr_decoder_context long_packet 60 Addr_decode_buf 240],
         error_log = []\<rparr>)
   \<and> length short_packet = 59
   \<and> hfp_msbc_decoder_decode_packet sample_codec short_packet NULL ready_world =
       (False, NULL,
        \<lparr>hfp_msbc_decoder =
           \<lparr>decoder_context = [1, 1, 1],
            context_data = replicate 472 0,
            decode_buf = replicate 118 0xAD @ replicate 2 0\<rparr>,
         engine_calls =
           [Call_DecoderReset Addr_decoder_context Addr_context_data 1888 1 1 False,
            Call_DecoderConfigureMSbc Addr_decoder_context,
            Call_DecodeFrame Addr_decoder_context short_packet 60 Addr_decode_buf 240],
         error_log = [Log_Decoding_failure 0 236 1]\<rparr>)"
proof -
  have ok: "OI_SUCCESS sample_codec = (\<lambda>status. status = 0)"
    by (simp add: sample_codec_def)
  have "hfp_msbc_decoder_decode_packet sample_codec long_packet NULL ready_world =
       (True, Addr_decode_buf,
        \<lparr>hfp_msbc_decoder = (hfp_msbc_decoder ready_world)\<lparr>decode_buf := replicate 120 0xAD\<rparr>,
         engine_calls = engine_calls ready_world @
           [Call_DecodeFrame Addr_decoder_context long_packet 60 Addr_decode_buf 240],
         error_log = error_log ready_world\<rparr>)"
    by (simp add: decode_packet_engine_arguments [of sample_codec long_packet NULL ready_world,
          THEN conjunct1]
        HFP_MSBC_PKT_LEN_def sizeof_decode_buf_def decode_buf_samples_def sample_frame_long ok)
  then have long: "hfp_msbc_decoder_decode_packet sample_codec long_packet NULL ready_world =
       (True, Addr_decode_buf,
        \<lparr>hfp_msbc_decoder =
           \<lparr>decoder_context = [1, 1, 1],
            context_data = replicate 472 0,
            decode_buf = replicate 120 0xAD\<rparr>,
         engine_calls =
           [Call_DecoderReset Addr_decoder_context Addr_context_data 1888 1 1 False,
            Call_DecoderConfigureMSbc Addr_decoder_context,
            Call_DecodeFrame Addr_decoder_context long_packet 60 Addr_decode_buf 240],
         error_log = []\<rparr>)"
    by (simp add: ready_world_eq)
  have "hfp_msbc_decoder_decode_packet sample_codec short_packet NULL ready_world =
       (False, NULL,
        \<lparr>hfp_msbc_decoder =
           (hfp_msbc_decoder ready_world)\<lparr>decode_buf := replicate 118 0xAD @ replicate 2 0\<rparr>,
         engine_calls = engine_calls ready_world @
           [Call_DecodeFrame Addr_decoder_context short_packet 60 Addr_decode_buf 240],
         error_log = error_log ready_world @ [Log_Decoding_failure 0 236 1]\<rparr>)"
    by (simp add: decode_packet_engine_arguments [of sample_codec short_packet NULL ready_world,
          THEN conjunct1]
        HFP_MSBC_PKT_LEN_def sizeof_decode_buf_def decode_buf_samples_def sample_frame_short ok)
  then have short: "hfp_msbc_decoder_decode_packet sample_codec short_packet NULL ready_world =
       (False, NULL,
        \<lparr>hfp_msbc_decoder =
           \<lparr>decoder_context = [1, 1, 1],
            context_data = replicate 472 0,
            decode_buf = replicate 118 0xAD @ replicate 2 0\<rparr>,
         engine_calls =
           [Call_DecoderReset Addr_decoder_context Addr_context_data 1888 1 1 False,
            Call_DecoderConfigureMSbc Addr_decoder_context,
            Call_DecodeFrame Addr_decoder_context short_packet 60 Addr_decode_buf 240],
         error_log = [Log_Decoding_failure 0 236 1]\<rparr>)"
    by (simp add: ready_world_eq)
  have len: "length long_packet = 61" "length short_packet = 59"
    by (simp_all add: long_packet_def short_packet_def)
  from long short len show ?thesis
    by blast
qed

text \<open>
  Claim C6. Every call of \<^verbatim>\<open>hfp_msbc_decoder_decode_packet\<close> applies the engine's
  single-frame decode exactly once: the decoder object it leaves is the one that a single
  application of \<^verbatim>\<open>OI_CODEC_SBC_DecodeFrame\<close> to the object it found leaves, the returned
  flag is the test on what that application reports, and the engine calls grow by that
  one call, on the success path and on the failure path alike. There is no path with no
  application and none with a second one.
\<close>
theorem decode_packet_one_frame_decode:
  "hfp_msbc_decoder (snd (snd (hfp_msbc_decoder_decode_packet H i_buf o_buf w))) =
     fst (snd (OI_CODEC_SBC_DecodeFrame H (hfp_msbc_decoder w) Addr_decoder_context i_buf 60
        Addr_decode_buf 240))
   \<and> fst (hfp_msbc_decoder_decode_packet H i_buf o_buf w) =
     (case OI_CODEC_SBC_DecodeFrame H (hfp_msbc_decoder w) Addr_decoder_context i_buf 60
        Addr_decode_buf 240 of
        (status, m, oi_size, out_avail) \<Rightarrow>
          OI_SUCCESS H status \<and> out_avail = 240 \<and> oi_size = 0)
   \<and> engine_calls (snd (snd (hfp_msbc_decoder_decode_packet H i_buf o_buf w))) =
     engine_calls w @ [Call_DecodeFrame Addr_decoder_context i_buf 60 Addr_decode_buf 240]
   \<and> length (filter is_DecodeFrame
       (engine_calls (snd (snd (hfp_msbc_decoder_decode_packet H i_buf o_buf w))))) =
     Suc (length (filter is_DecodeFrame (engine_calls w)))"
  by (cases "OI_CODEC_SBC_DecodeFrame H (hfp_msbc_decoder w) Addr_decoder_context i_buf 60
             Addr_decode_buf 240")
    (simp add: decode_packet_unfold)

theorem decode_packet_one_frame_decode_witness:
  "context_data (hfp_msbc_decoder ready_world) = replicate 472 0
   \<and> context_data (hfp_msbc_decoder (snd (snd (hfp_msbc_decoder_decode_packet counting_codec
        full_packet NULL ready_world)))) = replicate 472 1
   \<and> fst (hfp_msbc_decoder_decode_packet counting_codec full_packet NULL ready_world)
   \<and> engine_calls (snd (snd (hfp_msbc_decoder_decode_packet counting_codec full_packet NULL
        ready_world))) =
     [Call_DecoderReset Addr_decoder_context Addr_context_data 1888 1 1 False,
      Call_DecoderConfigureMSbc Addr_decoder_context,
      Call_DecodeFrame Addr_decoder_context full_packet 60 Addr_decode_buf 240]
   \<and> length (filter is_DecodeFrame
       (engine_calls (snd (snd (hfp_msbc_decoder_decode_packet counting_codec full_packet NULL
          ready_world))))) = 1"
proof -
  have ok: "OI_SUCCESS counting_codec = (\<lambda>status. status = 0)"
    by (simp add: counting_codec_def sample_codec_def)
  show ?thesis
    using decode_packet_one_frame_decode [of counting_codec full_packet NULL ready_world]
    by (simp add: counting_frame ok) (simp add: ready_world_eq)
qed

subsection \<open>Initialisation\<close>




lemma sample_sizes:
  "sizeof_DECODER_CONTEXT sample_codec = 3"
  "context_data_words sample_codec = 472"
  "CODEC_DATA_WORDS sample_codec 1 (SBC_CODEC_FAST_FILTER_BUFFERS sample_codec) = 344"
  by (simp_all add: sample_codec_def context_data_words_def sample_CODEC_DATA_WORDS_def)

subsection \<open>Cleanup\<close>

text \<open>
  Claim C4. \<^verbatim>\<open>hfp_msbc_decoder_cleanup\<close> sets the whole decoder object (engine
  context, scratch words and sample buffer) to zero, whatever it held before. So it is
  idempotent: a second cleanup changes nothing, a cleanup of the never-initialised
  object changes nothing, and every cleanup leaves the object the program starts with.
\<close>
theorem cleanup_zeroes_all:
  "decoder_context (hfp_msbc_decoder (hfp_msbc_decoder_cleanup H w)) =
     replicate (sizeof_DECODER_CONTEXT H) 0
   \<and> context_data (hfp_msbc_decoder (hfp_msbc_decoder_cleanup H w)) =
     replicate (context_data_words H) 0
   \<and> decode_buf (hfp_msbc_decoder (hfp_msbc_decoder_cleanup H w)) = replicate 120 0
   \<and> hfp_msbc_decoder_cleanup H (hfp_msbc_decoder_cleanup H w) = hfp_msbc_decoder_cleanup H w
   \<and> hfp_msbc_decoder_cleanup H (initial_world H) = initial_world H
   \<and> hfp_msbc_decoder (hfp_msbc_decoder_cleanup H w) = hfp_msbc_decoder (initial_world H)"
  by (simp add: hfp_msbc_decoder_cleanup_def zeroed_decoder_def initial_world_def
      decode_buf_samples_def)

theorem cleanup_zeroes_all_witness:
  "decoder_context (hfp_msbc_decoder ready_world) = [1, 1, 1]
   \<and> decoder_context (hfp_msbc_decoder (hfp_msbc_decoder_cleanup sample_codec ready_world)) =
       [0, 0, 0]
   \<and> context_data (hfp_msbc_decoder (hfp_msbc_decoder_cleanup sample_codec ready_world)) =
       replicate 472 0
   \<and> decode_buf (hfp_msbc_decoder (hfp_msbc_decoder_cleanup sample_codec ready_world)) =
       replicate 120 0"
  using cleanup_zeroes_all [of sample_codec ready_world]
  by (simp add: ready_world_eq sample_sizes numeral_3_eq_3 initial_world_def zeroed_decoder_def
      decode_buf_samples_def)

lemma init_reads_decoder_only:
  assumes "hfp_msbc_decoder w = hfp_msbc_decoder w'"
  shows "fst (hfp_msbc_decoder_init H w) = fst (hfp_msbc_decoder_init H w')"
    and "hfp_msbc_decoder (snd (hfp_msbc_decoder_init H w)) =
         hfp_msbc_decoder (snd (hfp_msbc_decoder_init H w'))"
  using assms
  by (auto simp add: hfp_msbc_decoder_init_def call_DecoderReset_def
      call_DecoderConfigureMSbc_def LOG_ERROR_def split: prod.splits)

lemma decode_packet_reads_decoder_only:
  assumes "hfp_msbc_decoder w = hfp_msbc_decoder w'"
  shows "fst (hfp_msbc_decoder_decode_packet H i_buf o_buf w) =
         fst (hfp_msbc_decoder_decode_packet H i_buf o_buf' w')"
    and "hfp_msbc_decoder (snd (snd (hfp_msbc_decoder_decode_packet H i_buf o_buf w))) =
         hfp_msbc_decoder (snd (snd (hfp_msbc_decoder_decode_packet H i_buf o_buf' w')))"
  using assms
  by (auto simp add: decode_packet_unfold split: prod.splits)

lemma cleanup_decoder:
  "hfp_msbc_decoder (hfp_msbc_decoder_cleanup H w) = zeroed_decoder H"
  by (simp add: hfp_msbc_decoder_cleanup_def)

lemma sample_init_zeroed:
  assumes "hfp_msbc_decoder w = zeroed_decoder sample_codec"
  shows "hfp_msbc_decoder_init sample_codec w =
     (True,
      w\<lparr>hfp_msbc_decoder :=
         \<lparr>decoder_context = [1, 1, 1],
          context_data = replicate 472 0,
          decode_buf = replicate 120 0\<rparr>,
        engine_calls := engine_calls w @
         [Call_DecoderReset Addr_decoder_context Addr_context_data 1888 1 1 False,
          Call_DecoderConfigureMSbc Addr_decoder_context]\<rparr>)"
  using assms
  by (simp add: hfp_msbc_decoder_init_def call_DecoderReset_def call_DecoderConfigureMSbc_def
      zeroed_decoder_def sample_codec_def sample_DecoderReset_def
      sample_DecoderConfigureMSbc_def sample_CODEC_DATA_WORDS_def sizeof_context_data_def
      context_data_words_def decode_buf_samples_def LOG_ERROR_def)

lemma used_world_eq:
  "used_world =
     ready_world\<lparr>hfp_msbc_decoder := (hfp_msbc_decoder ready_world)\<lparr>decode_buf := replicate 120 0x11\<rparr>,
        engine_calls := engine_calls ready_world @
          [Call_DecodeFrame Addr_decoder_context (replicate 60 0x11) 60 Addr_decode_buf 240]\<rparr>"
  by (simp add: used_world_def sample_decode_configured [OF ready_world_configured])

subsection \<open>Restarting the decoder\<close>

text \<open>
  Claim C9. Take any two starting worlds and one input frame (in particular any frame of
  60 bytes). In each world run cleanup, then an initialisation that succeeds, then a
  decode of the frame. Both decodes return the same flag, and they leave the same sample
  buffer, bit for bit (indeed the same decoder object). The engine enters as a function
  of the decoder object it is handed and of its arguments, so the result rests on cleanup
  zeroing everything the engine can reach.
\<close>
theorem reinit_decode_repeatable:
  assumes "hfp_msbc_decoder_init H (hfp_msbc_decoder_cleanup H wa) = (True, wa1)"
    and "hfp_msbc_decoder_init H (hfp_msbc_decoder_cleanup H wb) = (True, wb1)"
    and "hfp_msbc_decoder_decode_packet H frame oa wa1 = (ra, pa, wa2)"
    and "hfp_msbc_decoder_decode_packet H frame ob wb1 = (rb, pb, wb2)"
  shows "ra = rb \<and> decode_buf (hfp_msbc_decoder wa2) = decode_buf (hfp_msbc_decoder wb2)
    \<and> hfp_msbc_decoder wa2 = hfp_msbc_decoder wb2"
proof -
  have "hfp_msbc_decoder (hfp_msbc_decoder_cleanup H wa) =
        hfp_msbc_decoder (hfp_msbc_decoder_cleanup H wb)"
    by (simp add: cleanup_decoder)
  then have "hfp_msbc_decoder (snd (hfp_msbc_decoder_init H (hfp_msbc_decoder_cleanup H wa))) =
        hfp_msbc_decoder (snd (hfp_msbc_decoder_init H (hfp_msbc_decoder_cleanup H wb)))"
    by (rule init_reads_decoder_only)
  with assms(1,2) have same: "hfp_msbc_decoder wa1 = hfp_msbc_decoder wb1"
    by simp
  have "fst (hfp_msbc_decoder_decode_packet H frame oa wa1) =
        fst (hfp_msbc_decoder_decode_packet H frame ob wb1)"
    using same by (rule decode_packet_reads_decoder_only)
  with assms(3,4) have r: "ra = rb" by simp
  have "hfp_msbc_decoder (snd (snd (hfp_msbc_decoder_decode_packet H frame oa wa1))) =
        hfp_msbc_decoder (snd (snd (hfp_msbc_decoder_decode_packet H frame ob wb1)))"
    using same by (rule decode_packet_reads_decoder_only)
  with assms(3,4) have m: "hfp_msbc_decoder wa2 = hfp_msbc_decoder wb2" by simp
  from r m show ?thesis by simp
qed

theorem reinit_decode_repeatable_witness:
  "length full_packet = 60
   \<and> hfp_msbc_decoder used_world \<noteq> hfp_msbc_decoder (initial_world sample_codec)
   \<and> fst (hfp_msbc_decoder_init sample_codec (hfp_msbc_decoder_cleanup sample_codec used_world))
   \<and> fst (hfp_msbc_decoder_init sample_codec
        (hfp_msbc_decoder_cleanup sample_codec (initial_world sample_codec)))
   \<and> fst (hfp_msbc_decoder_decode_packet sample_codec full_packet NULL
        (snd (hfp_msbc_decoder_init sample_codec
           (hfp_msbc_decoder_cleanup sample_codec used_world))))
   \<and> fst (hfp_msbc_decoder_decode_packet sample_codec full_packet (Addr_caller 7)
        (snd (hfp_msbc_decoder_init sample_codec
           (hfp_msbc_decoder_cleanup sample_codec (initial_world sample_codec)))))
   \<and> decode_buf (hfp_msbc_decoder (snd (snd (hfp_msbc_decoder_decode_packet sample_codec
        full_packet NULL
        (snd (hfp_msbc_decoder_init sample_codec
           (hfp_msbc_decoder_cleanup sample_codec used_world))))))) =
     decode_buf (hfp_msbc_decoder (snd (snd (hfp_msbc_decoder_decode_packet sample_codec
        full_packet (Addr_caller 7)
        (snd (hfp_msbc_decoder_init sample_codec
           (hfp_msbc_decoder_cleanup sample_codec (initial_world sample_codec))))))))"
proof -
  let ?wa = "hfp_msbc_decoder_cleanup sample_codec used_world"
  let ?wb = "hfp_msbc_decoder_cleanup sample_codec (initial_world sample_codec)"
  let ?wa1 = "snd (hfp_msbc_decoder_init sample_codec ?wa)"
  let ?wb1 = "snd (hfp_msbc_decoder_init sample_codec ?wb)"
  let ?da = "hfp_msbc_decoder_decode_packet sample_codec full_packet NULL ?wa1"
  let ?db = "hfp_msbc_decoder_decode_packet sample_codec full_packet (Addr_caller 7) ?wb1"
  have ia: "hfp_msbc_decoder_init sample_codec ?wa = (True, ?wa1)"
    by (simp add: sample_init_zeroed [OF cleanup_decoder])
  have ib: "hfp_msbc_decoder_init sample_codec ?wb = (True, ?wb1)"
    by (simp add: sample_init_zeroed [OF cleanup_decoder])
  have ca: "decoder_context (hfp_msbc_decoder ?wa1) = [1, 1, 1]"
    by (simp add: sample_init_zeroed [OF cleanup_decoder])
  have cb: "decoder_context (hfp_msbc_decoder ?wb1) = [1, 1, 1]"
    by (simp add: sample_init_zeroed [OF cleanup_decoder])
  have da: "?da = (True, fst (snd ?da), snd (snd ?da))"
    by (simp add: full_packet_def sample_decode_configured [OF ca])
  have db: "?db = (True, fst (snd ?db), snd (snd ?db))"
    by (simp add: full_packet_def sample_decode_configured [OF cb])
  have dirty: "hfp_msbc_decoder used_world \<noteq> hfp_msbc_decoder (initial_world sample_codec)"
    by (simp add: used_world_eq ready_world_eq initial_world_def zeroed_decoder_def)
  have len: "length full_packet = 60"
    by (simp add: full_packet_def)
  have fa: "fst ?da" using da by (metis fst_conv)
  have fb: "fst ?db" using db by (metis fst_conv)
  have fia: "fst (hfp_msbc_decoder_init sample_codec ?wa)" using ia by (metis fst_conv)
  have fib: "fst (hfp_msbc_decoder_init sample_codec ?wb)" using ib by (metis fst_conv)
  from reinit_decode_repeatable [OF ia ib da db] len dirty fia fib fa fb
  show ?thesis by simp
qed

subsection \<open>The caller's output pointer\<close>

text \<open>
  Claim C10. When \<^verbatim>\<open>hfp_msbc_decoder_decode_packet\<close> returns false, the caller's
  pointer variable \<^verbatim>\<open>*o_buf\<close> holds after the call the value it held before: the
  function stores into it on the success path only.
\<close>
theorem decode_packet_failure_keeps_o_buf:
  "\<not> fst (hfp_msbc_decoder_decode_packet H i_buf o_buf w) \<Longrightarrow>
   fst (snd (hfp_msbc_decoder_decode_packet H i_buf o_buf w)) = o_buf"
  by (cases "OI_CODEC_SBC_DecodeFrame H (hfp_msbc_decoder w) Addr_decoder_context i_buf 60
             Addr_decode_buf 240")
    (auto simp add: decode_packet_unfold)

theorem decode_packet_failure_keeps_o_buf_witness:
  "\<not> fst (hfp_msbc_decoder_decode_packet sample_codec short_packet (Addr_caller 7) ready_world)
   \<and> fst (snd (hfp_msbc_decoder_decode_packet sample_codec short_packet (Addr_caller 7)
        ready_world)) = Addr_caller 7"
proof -
  have f: "\<not> fst (hfp_msbc_decoder_decode_packet sample_codec short_packet (Addr_caller 7)
      ready_world)"
    by (simp add: sample_decode_short)
  from decode_packet_failure_keeps_o_buf [OF f] f show ?thesis by simp
qed

text \<open>
  Claim C7. When \<^verbatim>\<open>hfp_msbc_decoder_decode_packet\<close> returns true, the pointer handed
  back is the address of the decoder's own sample buffer \<^verbatim>\<open>decode_buf\<close>, from whatever
  state and packet the call was made. It is an alias, not a copy: in every decoder object
  the pointer designates that object's sample buffer, so after a later successful call
  the first pointer shows the later frame. Any two successful calls, and so two
  successive ones, hand back the same address.
\<close>
theorem decode_packet_returns_decode_buf_address:
  "(fst (hfp_msbc_decoder_decode_packet H i_buf1 o_buf1 w1) \<longrightarrow>
      fst (snd (hfp_msbc_decoder_decode_packet H i_buf1 o_buf1 w1)) = Addr_decode_buf
      \<and> (\<forall>m. int16_array_at m (fst (snd (hfp_msbc_decoder_decode_packet H i_buf1 o_buf1 w1))) =
             Some (decode_buf m)))
   \<and> (fst (hfp_msbc_decoder_decode_packet H i_buf1 o_buf1 w1)
      \<and> fst (hfp_msbc_decoder_decode_packet H i_buf2 o_buf2 w2) \<longrightarrow>
      fst (snd (hfp_msbc_decoder_decode_packet H i_buf2 o_buf2 w2)) =
      fst (snd (hfp_msbc_decoder_decode_packet H i_buf1 o_buf1 w1)))"
proof -
  have one: "fst (snd (hfp_msbc_decoder_decode_packet H i_buf o_buf w)) = Addr_decode_buf"
    if "fst (hfp_msbc_decoder_decode_packet H i_buf o_buf w)" for i_buf o_buf w
    using that
    by (cases "OI_CODEC_SBC_DecodeFrame H (hfp_msbc_decoder w) Addr_decoder_context i_buf 60
             Addr_decode_buf 240")
      (simp add: decode_packet_unfold split: if_splits)
  show ?thesis
    by (simp add: one)
qed

theorem decode_packet_returns_decode_buf_address_witness:
  "fst (hfp_msbc_decoder_decode_packet sample_codec (replicate 60 0x11) NULL ready_world)
   \<and> fst (snd (hfp_msbc_decoder_decode_packet sample_codec (replicate 60 0x11) NULL
        ready_world)) = Addr_decode_buf
   \<and> snd (snd (hfp_msbc_decoder_decode_packet sample_codec (replicate 60 0x11) NULL
        ready_world)) = used_world
   \<and> int16_array_at (hfp_msbc_decoder used_world)
        (fst (snd (hfp_msbc_decoder_decode_packet sample_codec (replicate 60 0x11) NULL
           ready_world))) = Some (replicate 120 0x11)
   \<and> fst (hfp_msbc_decoder_decode_packet sample_codec full_packet (Addr_caller 7) used_world)
   \<and> fst (snd (hfp_msbc_decoder_decode_packet sample_codec full_packet (Addr_caller 7)
        used_world)) =
     fst (snd (hfp_msbc_decoder_decode_packet sample_codec (replicate 60 0x11) NULL
        ready_world))
   \<and> int16_array_at
        (hfp_msbc_decoder (snd (snd (hfp_msbc_decoder_decode_packet sample_codec full_packet
           (Addr_caller 7) used_world))))
        (fst (snd (hfp_msbc_decoder_decode_packet sample_codec (replicate 60 0x11) NULL
           ready_world))) = Some (replicate 120 0xAD)"
proof -
  let ?d1 = "hfp_msbc_decoder_decode_packet sample_codec (replicate 60 0x11) NULL ready_world"
  let ?d2 = "hfp_msbc_decoder_decode_packet sample_codec full_packet (Addr_caller 7) used_world"
  have c: "decoder_context (hfp_msbc_decoder used_world) = [1, 1, 1]"
    by (simp add: used_world_eq ready_world_eq)
  have f1: "fst ?d1"
    by (simp add: sample_decode_configured [OF ready_world_configured])
  have w1: "snd (snd ?d1) = used_world"
    by (simp add: used_world_def)
  have f2: "fst ?d2"
    by (simp add: full_packet_def sample_decode_configured [OF c])
  have b1: "decode_buf (hfp_msbc_decoder used_world) = replicate 120 0x11"
    by (simp add: used_world_eq)
  have b2: "decode_buf (hfp_msbc_decoder (snd (snd ?d2))) = replicate 120 0xAD"
    by (simp add: full_packet_def sample_decode_configured [OF c])
  note t = decode_packet_returns_decode_buf_address
    [of sample_codec "replicate 60 0x11" NULL ready_world full_packet "Addr_caller 7" used_world]
  from t f1 have p1: "fst (snd ?d1) = Addr_decode_buf"
    and a1: "\<forall>m. int16_array_at m (fst (snd ?d1)) = Some (decode_buf m)"
    by blast+
  from t f1 f2 have p2: "fst (snd ?d2) = fst (snd ?d1)"
    by blast
  from a1 b1 have v1: "int16_array_at (hfp_msbc_decoder used_world) (fst (snd ?d1)) =
      Some (replicate 120 0x11)"
    by simp
  from a1 b2 have v2: "int16_array_at (hfp_msbc_decoder (snd (snd ?d2))) (fst (snd ?d1)) =
      Some (replicate 120 0xAD)"
    by simp
  from f1 p1 w1 v1 f2 p2 v2 show ?thesis
    by blast
qed

subsection \<open>The scratch memory and the reset\<close>

text \<open>
  Claim C5, as stated: the scratch memory has the size the engine's sizing macro gives
  for one channel and the fast-filter buffer count. The array is declared with
  \<^verbatim>\<open>CODEC_DATA_WORDS(2, SBC_CODEC_FAST_FILTER_BUFFERS)\<close>, the macro at two channels, so
  its size is the macro's value at channel argument 2; under a macro that grows with the
  channel count, as the sample one does (472 words against 344), that is not the size for
  one channel.
\<close>
theorem scratch_sized_for_mono_counterexample:
  "context_data_words sample_codec =
     CODEC_DATA_WORDS sample_codec 2 (SBC_CODEC_FAST_FILTER_BUFFERS sample_codec)
   \<and> length (context_data (hfp_msbc_decoder (initial_world sample_codec))) = 472
   \<and> CODEC_DATA_WORDS sample_codec 1 (SBC_CODEC_FAST_FILTER_BUFFERS sample_codec) = 344
   \<and> length (context_data (hfp_msbc_decoder (initial_world sample_codec))) \<noteq>
       CODEC_DATA_WORDS sample_codec 1 (SBC_CODEC_FAST_FILTER_BUFFERS sample_codec)"
proof -
  have two: "context_data_words sample_codec =
      CODEC_DATA_WORDS sample_codec 2 (SBC_CODEC_FAST_FILTER_BUFFERS sample_codec)"
    by (simp add: context_data_words_def)
  have len: "length (context_data (hfp_msbc_decoder (initial_world sample_codec))) = 472"
    by (simp add: initial_world_def zeroed_decoder_def sample_sizes)
  have one: "CODEC_DATA_WORDS sample_codec 1 (SBC_CODEC_FAST_FILTER_BUFFERS sample_codec) = 344"
    by (rule sample_sizes)
  from two len one show ?thesis
    by (simp del: One_nat_def)
qed

text \<open>
  Claim C5, amended. The scratch memory is an array of
  \<^verbatim>\<open>CODEC_DATA_WORDS(2, SBC_CODEC_FAST_FILTER_BUFFERS)\<close> words of 32 bits: the engine's
  sizing macro at two channels and the fast-filter buffer count; that is its length in the
  object the program starts with and in the object every cleanup leaves.
  \<^verbatim>\<open>hfp_msbc_decoder_init\<close> begins by applying the engine's reset to the decoder object it
  finds, with the addresses of the context and of that array, \<open>maxChannels = 1\<close>,
  \<open>pcmStride = 1\<close>, \<open>enhanced = false\<close>, and as capacity the array's size in bytes
  converted to 32 bits: four times the word count modulo \<open>2 ^ 32\<close>, which is the exact
  size of the array whenever that is below \<open>2 ^ 32\<close>. When the reset is rejected, the
  object the reset left, the reset's call and its log line are all that has changed;
  otherwise the mSBC configuration is applied to the object the reset left.
\<close>

theorem init_reset_arguments:
  "(let words = CODEC_DATA_WORDS H 2 (SBC_CODEC_FAST_FILTER_BUFFERS H);
        bytes = (of_nat (4 * words) :: 32 word);
        scratch = context_data (hfp_msbc_decoder (hfp_msbc_decoder_cleanup H w0));
        reset = OI_CODEC_SBC_DecoderReset H (hfp_msbc_decoder w) Addr_decoder_context
                  Addr_context_data bytes 1 1 False;
        reset_call = Call_DecoderReset Addr_decoder_context Addr_context_data bytes 1 1 False;
        conf = OI_CODEC_SBC_DecoderConfigureMSbc H (snd reset) Addr_decoder_context
    in length scratch = words
     \<and> length (context_data (hfp_msbc_decoder (initial_world H))) = words
     \<and> unat bytes = (4 * length scratch) mod 2 ^ 32
     \<and> (4 * length scratch < 2 ^ 32 \<longrightarrow> unat bytes = 4 * length scratch)
     \<and> hfp_msbc_decoder_init H w =
         (if \<not> OI_SUCCESS H (fst reset)
          then (False,
                \<lparr>hfp_msbc_decoder = snd reset,
                 engine_calls = engine_calls w @ [reset_call],
                 error_log = error_log w @ [Log_DecoderReset_failed (fst reset)]\<rparr>)
          else (OI_SUCCESS H (fst conf),
                \<lparr>hfp_msbc_decoder = snd conf,
                 engine_calls = engine_calls w @
                   [reset_call, Call_DecoderConfigureMSbc Addr_decoder_context],
                 error_log = error_log w @
                   (if OI_SUCCESS H (fst conf) then []
                    else [Log_DecoderConfigureMSbc_failed (fst conf)])\<rparr>)))"
proof -
  have len: "length (context_data (hfp_msbc_decoder (hfp_msbc_decoder_cleanup H w0))) =
      CODEC_DATA_WORDS H 2 (SBC_CODEC_FAST_FILTER_BUFFERS H)"
    by (simp add: cleanup_decoder zeroed_decoder_def context_data_words_def)
  have len0: "length (context_data (hfp_msbc_decoder (initial_world H))) =
      CODEC_DATA_WORDS H 2 (SBC_CODEC_FAST_FILTER_BUFFERS H)"
    by (simp add: initial_world_def zeroed_decoder_def context_data_words_def)
  have bytes: "unat (of_nat (4 * CODEC_DATA_WORDS H 2 (SBC_CODEC_FAST_FILTER_BUFFERS H))
        :: 32 word) =
      (4 * CODEC_DATA_WORDS H 2 (SBC_CODEC_FAST_FILTER_BUFFERS H)) mod 2 ^ 32"
    by (simp only: unat_of_nat) simp
  have init: "hfp_msbc_decoder_init H w =
     (case OI_CODEC_SBC_DecoderReset H (hfp_msbc_decoder w) Addr_decoder_context
             Addr_context_data
             (of_nat (4 * CODEC_DATA_WORDS H 2 (SBC_CODEC_FAST_FILTER_BUFFERS H))) 1 1 False of
        (st1, m1) \<Rightarrow>
          if \<not> OI_SUCCESS H st1
          then (False,
                \<lparr>hfp_msbc_decoder = m1,
                 engine_calls = engine_calls w @
                   [Call_DecoderReset Addr_decoder_context Addr_context_data
                      (of_nat (4 * CODEC_DATA_WORDS H 2 (SBC_CODEC_FAST_FILTER_BUFFERS H)))
                      1 1 False],
                 error_log = error_log w @ [Log_DecoderReset_failed st1]\<rparr>)
          else
            (case OI_CODEC_SBC_DecoderConfigureMSbc H m1 Addr_decoder_context of
               (st2, m2) \<Rightarrow>
                 (OI_SUCCESS H st2,
                  \<lparr>hfp_msbc_decoder = m2,
                   engine_calls = engine_calls w @
                     [Call_DecoderReset Addr_decoder_context Addr_context_data
                        (of_nat (4 * CODEC_DATA_WORDS H 2 (SBC_CODEC_FAST_FILTER_BUFFERS H)))
                        1 1 False,
                      Call_DecoderConfigureMSbc Addr_decoder_context],
                   error_log = error_log w @
                     (if OI_SUCCESS H st2 then []
                      else [Log_DecoderConfigureMSbc_failed st2])\<rparr>)))"
    by (auto simp add: hfp_msbc_decoder_init_def call_DecoderReset_def
        call_DecoderConfigureMSbc_def LOG_ERROR_def sizeof_context_data_def
        context_data_words_def split: prod.splits)
  show ?thesis
    unfolding Let_def len len0 bytes
    by (simp add: init split: prod.splits)
qed

theorem init_reset_arguments_witness:
  "length (context_data (hfp_msbc_decoder (hfp_msbc_decoder_cleanup sample_codec used_world))) =
     472
   \<and> (4 * 472 < (2::nat) ^ 32)
   \<and> unat (1888 :: 32 word) = 4 * 472
   \<and> OI_CODEC_SBC_DecoderReset sample_codec (hfp_msbc_decoder (initial_world sample_codec))
        Addr_decoder_context Addr_context_data 1888 1 1 False =
       (0, \<lparr>decoder_context = [1, 1, 0],
            context_data = replicate 472 0,
            decode_buf = replicate 120 0\<rparr>)
   \<and> hfp_msbc_decoder_init sample_codec (initial_world sample_codec) =
       (True,
        \<lparr>hfp_msbc_decoder =
           \<lparr>decoder_context = [1, 1, 1],
            context_data = replicate 472 0,
            decode_buf = replicate 120 0\<rparr>,
         engine_calls =
           [Call_DecoderReset Addr_decoder_context Addr_context_data 1888 1 1 False,
            Call_DecoderConfigureMSbc Addr_decoder_context],
         error_log = []\<rparr>)"
proof -
  have words: "CODEC_DATA_WORDS sample_codec 2 (SBC_CODEC_FAST_FILTER_BUFFERS sample_codec) = 472"
    using sample_sizes(2) by (simp add: context_data_words_def)
  have ok: "OI_SUCCESS sample_codec = (\<lambda>status. status = 0)"
    by (simp add: sample_codec_def)
  have start: "hfp_msbc_decoder (initial_world sample_codec) = zeroed_decoder sample_codec"
    "engine_calls (initial_world sample_codec) = []"
    "error_log (initial_world sample_codec) = []"
    by (simp_all add: initial_world_def)
  have zero: "zeroed_decoder sample_codec =
      \<lparr>decoder_context = replicate 3 0,
       context_data = replicate 472 0,
       decode_buf = replicate 120 0\<rparr>"
    by (simp add: zeroed_decoder_def sample_sizes decode_buf_samples_def)
  have reset: "OI_CODEC_SBC_DecoderReset sample_codec (zeroed_decoder sample_codec)
        Addr_decoder_context Addr_context_data 1888 1 1 False =
       (0, \<lparr>decoder_context = [1, 1, 0],
            context_data = replicate 472 0,
            decode_buf = replicate 120 0\<rparr>)"
    unfolding zero
    by (simp add: sample_codec_def sample_DecoderReset_def sample_CODEC_DATA_WORDS_def)
  have conf: "OI_CODEC_SBC_DecoderConfigureMSbc sample_codec
        \<lparr>decoder_context = [1, 1, 0],
            context_data = replicate 472 0,
            decode_buf = replicate 120 0\<rparr> Addr_decoder_context =
       (0, \<lparr>decoder_context = [1, 1, 1],
            context_data = replicate 472 0,
            decode_buf = replicate 120 0\<rparr>)"
    by (simp add: sample_codec_def sample_DecoderConfigureMSbc_def)
  have bytes: "(of_nat (4 * 472) :: 32 word) = 1888"
    by simp
  note t = init_reset_arguments [of sample_codec used_world "initial_world sample_codec",
      unfolded Let_def words bytes]
  have l: "length (context_data (hfp_msbc_decoder
      (hfp_msbc_decoder_cleanup sample_codec used_world))) = 472"
    by (rule t [THEN conjunct1])
  have i: "hfp_msbc_decoder_init sample_codec (initial_world sample_codec) =
       (True,
        \<lparr>hfp_msbc_decoder =
           \<lparr>decoder_context = [1, 1, 1],
            context_data = replicate 472 0,
            decode_buf = replicate 120 0\<rparr>,
         engine_calls =
           [Call_DecoderReset Addr_decoder_context Addr_context_data 1888 1 1 False,
            Call_DecoderConfigureMSbc Addr_decoder_context],
         error_log = []\<rparr>)"
    by (simp only: t [THEN conjunct2, THEN conjunct2, THEN conjunct2, THEN conjunct2]
        start reset ok)
      (simp add: conf)
  have r: "OI_CODEC_SBC_DecoderReset sample_codec (hfp_msbc_decoder (initial_world sample_codec))
        Addr_decoder_context Addr_context_data 1888 1 1 False =
       (0, \<lparr>decoder_context = [1, 1, 0],
            context_data = replicate 472 0,
            decode_buf = replicate 120 0\<rparr>)"
    by (simp only: start reset)
  have n: "4 * 472 < (2::nat) ^ 32" "unat (1888 :: 32 word) = 4 * 472"
    by simp_all
  from l n r i show ?thesis
    by (intro conjI)
qed

end
